theory Spec2Isabelle
  imports Complex_Main
begin

section \<open>Library management: data model\<close>

text \<open>
  A shallow embedding of \<^verbatim>\<open>library_management.py\<close>. Every field carries the type of
  its Python annotation (\<^verbatim>\<open>item_id: int\<close>, \<^verbatim>\<open>title: str\<close>, ...); Python's unbounded
  integers are \<open>int\<close>.

  Time. A \<^verbatim>\<open>datetime\<close> is the number of microseconds since some fixed instant, a
  \<^verbatim>\<open>timedelta\<close> is a number of microseconds. \<^verbatim>\<open>timedelta(days=n)\<close> is
  \<open>n * 86400000000\<close> and the attribute \<^verbatim>\<open>.days\<close> of a (normalised) timedelta is the
  floor of the quotient by one day, also for negative differences. Every call of
  \<^verbatim>\<open>datetime.datetime.now()\<close> is a separate parameter of the operation that makes it, in
  the order the source evaluates them; nothing is assumed about how the readings relate.
  The bounded range of \<^verbatim>\<open>datetime\<close> (the years 1 to 9999) is not modelled.

  Money. Fines are rationals. The fine rates 0.25, 1.00 and 0.50 are dyadic, so the float
  product \<^verbatim>\<open>days_overdue * rate\<close> of the source is exact, and equal to the rational
  product, for every number of days of magnitude up to \<open>2 ^ 53\<close>; every number of days
  that \<^verbatim>\<open>checkin\<close> computes (the \<^verbatim>\<open>.days\<close> of a timedelta) lies in that range. Beyond
  it the source rounds, the model does not follow it there, and nothing is stated there.

  Fields that only record the wall clock or a constant at construction and that no
  operation reads (\<^verbatim>\<open>added_date\<close>, \<^verbatim>\<open>join_date\<close>, \<^verbatim>\<open>publication_year\<close>,
  \<^verbatim>\<open>release_year\<close>, \<^verbatim>\<open>page_count\<close>, \<^verbatim>\<open>publisher\<close>, \<^verbatim>\<open>format\<close>, \<^verbatim>\<open>rating\<close>,
  \<^verbatim>\<open>duration\<close>, \<^verbatim>\<open>edition\<close>) are left out, and so are the librarians of the catalog and
  the text written by \<^verbatim>\<open>print\<close>, except the reservation message of \<^verbatim>\<open>checkin\<close>.
\<close>

type_synonym datetime = int
type_synonym timedelta = int

definition timedelta_days :: "int \<Rightarrow> timedelta" where
  "timedelta_days n = n * 86400000000"

definition days :: "timedelta \<Rightarrow> int" where
  "days d = d div 86400000000"

datatype ItemStatus = AVAILABLE | CHECKED_OUT | RESERVED | DAMAGED | LOST

text \<open>The class of an item object: \<^verbatim>\<open>type(item).__name__\<close>.\<close>

datatype ItemKind = Book | DVD | CD

text \<open>
  The constructor arguments specific to a class. A \<^verbatim>\<open>CD\<close> is built by the constructor of
  \<^verbatim>\<open>Book\<close> with the artist as author and an empty ISBN, and then stores the artist and
  the number of tracks.
\<close>

datatype ItemDetails =
    BookDetails (author: string) (isbn: string)
  | DVDDetails (director: string) (runtime: int)
  | CDDetails (cd_author: string) (cd_isbn: string) (artist: string) (tracks: int)

record HistoryEntry =
  h_patron_id :: int
  h_checkout_date :: datetime
  h_due_date :: datetime

record Item =
  item_id :: int
  title :: string
  category :: string
  details :: ItemDetails
  status :: ItemStatus
  checkout_count :: int
  checkout_history :: "HistoryEntry list"
  current_patron :: "int option"
  due_date :: "datetime option"
  reservation_queue :: "int list"

fun kind_of_details :: "ItemDetails \<Rightarrow> ItemKind" where
  "kind_of_details (BookDetails a i) = Book"
| "kind_of_details (DVDDetails d r) = DVD"
| "kind_of_details (CDDetails a i ar t) = CD"

definition kind :: "Item \<Rightarrow> ItemKind" where
  "kind it = kind_of_details (details it)"

text \<open>\<^verbatim>\<open>isinstance(item, Book)\<close>: the class \<^verbatim>\<open>CD\<close> derives from \<^verbatim>\<open>Book\<close>.\<close>

fun isinstance_Book :: "ItemKind \<Rightarrow> bool" where
  "isinstance_Book Book = True"
| "isinstance_Book CD = True"
| "isinstance_Book DVD = False"

section \<open>Kind-specific policy\<close>

text \<open>
  The methods of the three classes, and their dispatch on the class of the object: the
  method of \<^verbatim>\<open>CD\<close> overrides the one it inherits from \<^verbatim>\<open>Book\<close>.
\<close>

definition Book_get_checkout_period :: int where
  "Book_get_checkout_period = 21"

definition DVD_get_checkout_period :: int where
  "DVD_get_checkout_period = 7"

definition CD_get_checkout_period :: int where
  "CD_get_checkout_period = 14"

definition Book_calculate_fine :: "int \<Rightarrow> rat" where
  "Book_calculate_fine days_overdue = of_int days_overdue * (1 / 4)"

definition DVD_calculate_fine :: "int \<Rightarrow> rat" where
  "DVD_calculate_fine days_overdue = of_int days_overdue * 1"

definition CD_calculate_fine :: "int \<Rightarrow> rat" where
  "CD_calculate_fine days_overdue = of_int days_overdue * (1 / 2)"

fun get_checkout_period :: "ItemKind \<Rightarrow> int" where
  "get_checkout_period Book = Book_get_checkout_period"
| "get_checkout_period DVD = DVD_get_checkout_period"
| "get_checkout_period CD = CD_get_checkout_period"

fun calculate_fine :: "ItemKind \<Rightarrow> int \<Rightarrow> rat" where
  "calculate_fine Book n = Book_calculate_fine n"
| "calculate_fine DVD n = DVD_calculate_fine n"
| "calculate_fine CD n = CD_calculate_fine n"

text \<open>The property \<^verbatim>\<open>checkout_period\<close> of an item.\<close>

definition checkout_period :: "Item \<Rightarrow> int" where
  "checkout_period it = get_checkout_period (kind it)"

section \<open>Item operations\<close>

text \<open>
  \<^verbatim>\<open>LibraryItem.checkout\<close>. The first clock reading \<open>t1\<close> stamps the due date, the
  second one \<open>t2\<close> is the checkout date of the history entry. The result is the returned
  boolean and the item after the call.
\<close>

definition checkout :: "Item \<Rightarrow> int \<Rightarrow> datetime \<Rightarrow> datetime \<Rightarrow> bool \<times> Item" where
  "checkout it patron_id t1 t2 =
     (if status it = AVAILABLE then
        (let due = t1 + timedelta_days (checkout_period it)
         in (True,
             it\<lparr>status := CHECKED_OUT,
                current_patron := Some patron_id,
                checkout_count := checkout_count it + 1,
                due_date := Some due,
                checkout_history := checkout_history it @
                  [\<lparr>h_patron_id = patron_id, h_checkout_date = t2, h_due_date = due\<rparr>]\<rparr>))
      else (False, it))"

text \<open>
  \<^verbatim>\<open>LibraryItem.checkin\<close>. The argument \<^verbatim>\<open>condition\<close> is never read. The first clock
  reading \<open>t1\<close> is compared with the due date, the second one \<open>t2\<close> gives the days
  overdue. The result is the returned fine, the item after the call, and the message
  printed for the patron taken from the reservation queue (the item id and the patron id),
  if any.
\<close>

definition checkin :: "Item \<Rightarrow> string \<Rightarrow> datetime \<Rightarrow> datetime \<Rightarrow> rat \<times> Item \<times> (int \<times> int) option" where
  "checkin it condition t1 t2 =
     (let fine = (case due_date it of
                    None \<Rightarrow> 0
                  | Some d \<Rightarrow> if t1 > d then calculate_fine (kind it) (days (t2 - d)) else 0);
          it1 = it\<lparr>status := AVAILABLE, current_patron := None, due_date := None\<rparr>
      in (case reservation_queue it1 of
            [] \<Rightarrow> (fine, it1, None)
          | next_patron # rest \<Rightarrow>
              (fine, it1\<lparr>reservation_queue := rest\<rparr>, Some (item_id it1, next_patron))))"

text \<open>\<^verbatim>\<open>LibraryItem.reserve\<close>.\<close>

definition reserve :: "Item \<Rightarrow> int \<Rightarrow> bool \<times> Item" where
  "reserve it patron_id =
     (if patron_id \<notin> set (reservation_queue it)
      then (True, it\<lparr>reservation_queue := reservation_queue it @ [patron_id]\<rparr>)
      else (False, it))"

section \<open>Patrons and the checkout desk\<close>

text \<open>
  A patron's list \<^verbatim>\<open>checked_out_items\<close> holds references to item objects, and
  \<^verbatim>\<open>process_checkout\<close> mutates the object a patron's list already refers to. Item
  objects therefore live in a store, a function from references to the state of the
  object, and the lists hold references.
\<close>

type_synonym item_ref = nat
type_synonym item_store = "item_ref \<Rightarrow> Item"

datatype NotificationType = OVERDUE | RESERVATION | FINE | GENERAL

record Notification =
  notification_id :: int
  user_id :: int
  message :: string
  notification_type :: NotificationType
  timestamp :: datetime
  is_read :: bool

record BorrowingEntry =
  b_item_id :: int
  b_title :: string
  b_checkout_date :: datetime
  b_due_date :: datetime

record Patron =
  person_id :: int
  name :: string
  email :: string
  membership_level :: string
  checked_out_items :: "item_ref list"
  reserved_items :: "item_ref list"
  fines :: rat
  borrowing_history :: "BorrowingEntry list"
  notifications :: "Notification list"

text \<open>\<^verbatim>\<open>Patron.get_max_checkouts\<close>: the dictionary \<^verbatim>\<open>limits\<close> and its default.\<close>

definition limits :: "(string \<times> int) list" where
  "limits = [(''Standard'', 5), (''Premium'', 10), (''Student'', 3), (''Faculty'', 15)]"

definition get_max_checkouts :: "Patron \<Rightarrow> int" where
  "get_max_checkouts p =
     (case map_of limits (membership_level p) of None \<Rightarrow> 5 | Some n \<Rightarrow> n)"

text \<open>
  \<^verbatim>\<open>Patron.checkout_item\<close>, called with the reference \<open>r\<close> of an item whose state is
  \<open>it\<close>. The clock is read for the checkout date (\<open>t1\<close>) and again for the due date
  (\<open>t2\<close>) of the borrowing entry.
\<close>

definition checkout_item :: "Patron \<Rightarrow> item_ref \<Rightarrow> Item \<Rightarrow> datetime \<Rightarrow> datetime \<Rightarrow> bool \<times> Patron" where
  "checkout_item p r it t1 t2 =
     (if int (length (checked_out_items p)) < get_max_checkouts p then
        (True,
         p\<lparr>checked_out_items := checked_out_items p @ [r],
           borrowing_history := borrowing_history p @
             [\<lparr>b_item_id = item_id it, b_title = title it, b_checkout_date = t1,
               b_due_date = t2 + timedelta_days (checkout_period it)\<rparr>]\<rparr>)
      else (False, p))"

text \<open>
  \<^verbatim>\<open>Librarian.process_checkout\<close>; the librarian object itself is not read. The readings
  \<open>t1\<close>, \<open>t2\<close> are those of \<^verbatim>\<open>checkout_item\<close>, \<open>t3\<close>, \<open>t4\<close> those of
  \<^verbatim>\<open>checkout\<close>, whose boolean result the source discards.
\<close>

definition process_checkout ::
  "Patron \<Rightarrow> item_ref \<Rightarrow> item_store \<Rightarrow> datetime \<Rightarrow> datetime \<Rightarrow> datetime \<Rightarrow> datetime
     \<Rightarrow> bool \<times> Patron \<times> item_store" where
  "process_checkout p r st t1 t2 t3 t4 =
     (case checkout_item p r (st r) t1 t2 of
        (True, p') \<Rightarrow> (True, p', st(r := snd (checkout (st r) (person_id p') t3 t4)))
      | (False, p') \<Rightarrow> (False, p', st))"

text \<open>\<^verbatim>\<open>Librarian.process_checkin\<close>.\<close>

definition process_checkin ::
  "item_ref \<Rightarrow> item_store \<Rightarrow> string \<Rightarrow> datetime \<Rightarrow> datetime \<Rightarrow> rat \<times> item_store" where
  "process_checkin r st condition t1 t2 =
     (case checkin (st r) condition t1 t2 of (fine, it', out) \<Rightarrow> (fine, st(r := it')))"

section \<open>The catalog and its import\<close>

text \<open>
  The dictionaries of the catalog are association lists in insertion order with distinct
  keys; \<open>dict_set\<close> is the assignment \<^verbatim>\<open>d[k] = v\<close>, which replaces the value of a key
  that is present in place and appends a new key at the end. The catalog is the only
  holder of the items that \<^verbatim>\<open>load_from_file\<close> creates, so its dictionary holds their
  state directly.
\<close>

fun dict_set :: "('k \<times> 'v) list \<Rightarrow> 'k \<Rightarrow> 'v \<Rightarrow> ('k \<times> 'v) list" where
  "dict_set [] k v = [(k, v)]"
| "dict_set ((k', v') # d) k v =
     (if k' = k then (k', v) # d else (k', v') # dict_set d k v)"

record Catalog =
  items :: "(int \<times> Item) list"
  patrons :: "(int \<times> Patron) list"
  next_item_id :: int
  next_patron_id :: int
  next_staff_id :: int

text \<open>
  The file read by \<^verbatim>\<open>load_from_file\<close>: absent, not a JSON document, or a JSON object.
  An item record of the document is a dictionary; each key that the loader reads is either
  missing (\<open>None\<close>) or holds a value of the type that \<^verbatim>\<open>save_to_file\<close> writes for it.
  Keys the loader never reads are left out.
\<close>

record ItemData =
  d_type :: "string option"
  d_item_id :: "int option"
  d_title :: "string option"
  d_category :: "string option"
  d_author :: "string option"
  d_isbn :: "string option"
  d_director :: "string option"
  d_runtime :: "int option"
  d_artist :: "string option"
  d_tracks :: "int option"
  d_status :: "string option"
  d_checkout_count :: "int option"

record NextIds =
  n_item :: "int option"
  n_patron :: "int option"
  n_staff :: "int option"

record Document =
  doc_items :: "ItemData list option"
  doc_next_ids :: "NextIds option"

datatype FileContent = NoFile | NotJSON | Doc Document

datatype py_error = KeyError | ValueError

text \<open>\<^verbatim>\<open>d.get(key, default)\<close> on a key that is missing or present.\<close>

fun get_default :: "'a option \<Rightarrow> 'a \<Rightarrow> 'a" where
  "get_default None dflt = dflt"
| "get_default (Some v) dflt = v"

text \<open>\<^verbatim>\<open>LibraryItem.__init__\<close> and the constructors of the three classes.\<close>

definition LibraryItem_init :: "int \<Rightarrow> string \<Rightarrow> string \<Rightarrow> ItemDetails \<Rightarrow> Item" where
  "LibraryItem_init i t c dt =
     \<lparr>item_id = i, title = t, category = c, details = dt, status = AVAILABLE,
      checkout_count = 0, checkout_history = [], current_patron = None, due_date = None,
      reservation_queue = []\<rparr>"

definition new_Book :: "int \<Rightarrow> string \<Rightarrow> string \<Rightarrow> string \<Rightarrow> string \<Rightarrow> Item" where
  "new_Book i t a isb c = LibraryItem_init i t c (BookDetails a isb)"

definition new_DVD :: "int \<Rightarrow> string \<Rightarrow> string \<Rightarrow> string \<Rightarrow> int \<Rightarrow> Item" where
  "new_DVD i t dir c rt = LibraryItem_init i t c (DVDDetails dir rt)"

definition new_CD :: "int \<Rightarrow> string \<Rightarrow> string \<Rightarrow> string \<Rightarrow> int \<Rightarrow> Item" where
  "new_CD i t ar c tr = LibraryItem_init i t c (CDDetails ar [] ar tr)"

text \<open>\<^verbatim>\<open>ItemStatus(value)\<close>: the member with that value; a \<^verbatim>\<open>ValueError\<close> otherwise.\<close>

definition ItemStatus_of_value :: "string \<Rightarrow> ItemStatus option" where
  "ItemStatus_of_value s =
     (if s = ''Available'' then Some AVAILABLE
      else if s = ''Checked Out'' then Some CHECKED_OUT
      else if s = ''Reserved'' then Some RESERVED
      else if s = ''Damaged'' then Some DAMAGED
      else if s = ''Lost'' then Some LOST
      else None)"

text \<open>
  The subscription \<^verbatim>\<open>item_data['item_id']\<close>, \<^verbatim>\<open>item_data['title']\<close> of a constructor
  call: a \<^verbatim>\<open>KeyError\<close> when the key is missing.
\<close>

definition required_fields :: "ItemData \<Rightarrow> py_error + int \<times> string" where
  "required_fields d =
     (case d_item_id d of
        None \<Rightarrow> Inl KeyError
      | Some i \<Rightarrow> (case d_title d of None \<Rightarrow> Inl KeyError | Some t \<Rightarrow> Inr (i, t)))"

text \<open>The lines under \<^verbatim>\<open># Restore item state\<close>.\<close>

definition restore_item_state :: "ItemData \<Rightarrow> Item \<Rightarrow> py_error + Item" where
  "restore_item_state d it =
     (case ItemStatus_of_value (get_default (d_status d) ''Available'') of
        None \<Rightarrow> Inl ValueError
      | Some s \<Rightarrow> Inr (it\<lparr>status := s, checkout_count := get_default (d_checkout_count d) 0\<rparr>))"

text \<open>
  One pass of the loop body of \<^verbatim>\<open>load_from_file\<close> up to the assignment into the
  dictionary: an exception, \<open>None\<close> for \<^verbatim>\<open>continue\<close>, or the item to store.
\<close>

definition load_item :: "ItemData \<Rightarrow> py_error + Item option" where
  "load_item d =
     (let item_type = get_default (d_type d) ''Book'' in
      if item_type = ''Book'' then
        (case required_fields d of
           Inl e \<Rightarrow> Inl e
         | Inr (i, t) \<Rightarrow>
             map_sum id Some (restore_item_state d
               (new_Book i t (get_default (d_author d) []) (get_default (d_isbn d) [])
                  (get_default (d_category d) ''General''))))
      else if item_type = ''DVD'' then
        (case required_fields d of
           Inl e \<Rightarrow> Inl e
         | Inr (i, t) \<Rightarrow>
             map_sum id Some (restore_item_state d
               (new_DVD i t (get_default (d_director d) [])
                  (get_default (d_category d) ''Entertainment'') (get_default (d_runtime d) 0))))
      else if item_type = ''CD'' then
        (case required_fields d of
           Inl e \<Rightarrow> Inl e
         | Inr (i, t) \<Rightarrow>
             map_sum id Some (restore_item_state d
               (new_CD i t (get_default (d_artist d) [])
                  (get_default (d_category d) ''Music'') (get_default (d_tracks d) 0))))
      else Inr None)"

text \<open>
  The loop over the item records. An exception leaves the loop with the dictionary as it
  is at that moment.
\<close>

fun load_items :: "ItemData list \<Rightarrow> (int \<times> Item) list \<Rightarrow> py_error option \<times> (int \<times> Item) list" where
  "load_items [] its = (None, its)"
| "load_items (d # ds) its =
     (case load_item d of
        Inl e \<Rightarrow> (Some e, its)
      | Inr None \<Rightarrow> load_items ds its
      | Inr (Some it) \<Rightarrow> load_items ds (dict_set its (item_id it) it))"

text \<open>
  \<^verbatim>\<open>Catalog.load_from_file\<close>: the returned boolean and the catalog after the call. Both
  handlers return \<^verbatim>\<open>False\<close> and keep what the catalog holds when the exception is
  raised.
\<close>

definition load_from_file :: "FileContent \<Rightarrow> Catalog \<Rightarrow> bool \<times> Catalog" where
  "load_from_file f cat =
     (case f of
        NoFile \<Rightarrow> (False, cat)
      | NotJSON \<Rightarrow> (False, cat)
      | Doc data \<Rightarrow>
          (case load_items (get_default (doc_items data) []) [] of
             (Some e, its) \<Rightarrow> (False, cat\<lparr>items := its, patrons := []\<rparr>)
           | (None, its) \<Rightarrow>
               (let next_ids = get_default (doc_next_ids data)
                                 \<lparr>n_item = None, n_patron = None, n_staff = None\<rparr>
                in (True,
                    cat\<lparr>items := its, patrons := [],
                        next_item_id := get_default (n_item next_ids) 1,
                        next_patron_id := get_default (n_patron next_ids) 1,
                        next_staff_id := get_default (n_staff next_ids) 1\<rparr>))))"

text \<open>
  The invariant of an item in the data model of the specification: the holder is set
  exactly when the status is checked out, the due date is set exactly when the holder is,
  and no patron id occurs twice in the reservation queue.
\<close>

definition item_invariant :: "Item \<Rightarrow> bool" where
  "item_invariant it \<longleftrightarrow>
     ((current_patron it \<noteq> None) = (status it = CHECKED_OUT)) \<and>
     ((due_date it \<noteq> None) = (current_patron it \<noteq> None)) \<and>
     distinct (reservation_queue it)"

section \<open>Kind-specific policy: the table\<close>

text \<open>
  C3: the checkout period and the fine per day are 21 days and 0.25 for a book, 7 days and
  1.00 for a DVD, 14 days and 0.50 for a CD; five days overdue cost 1.25, 5.00 and 2.50.
  The fine is the number of days times the rate for every number of days of magnitude up
  to \<open>2 ^ 53\<close>, the range on which the float product of the source is exact. The table
  holds for the objects the three constructors build. In particular an object built by
  the constructor of \<^verbatim>\<open>CD\<close>, which runs the constructor of \<^verbatim>\<open>Book\<close> and is an
  instance of \<^verbatim>\<open>Book\<close>, has the class \<^verbatim>\<open>CD\<close>, a checkout period of 14 days and the
  rate 0.50: its checkout stamps a due date 14 days after the clock reading and its
  checkin five days late returns 2.50.
\<close>

theorem kind_policy_table:
  "get_checkout_period Book = 21 \<and> get_checkout_period DVD = 7 \<and>
   get_checkout_period CD = 14 \<and>
   (\<bar>n\<bar> \<le> 2 ^ 53 \<longrightarrow>
      calculate_fine Book n = of_int n * (1 / 4) \<and>
      calculate_fine DVD n = of_int n * 1 \<and>
      calculate_fine CD n = of_int n * (1 / 2)) \<and>
   calculate_fine Book 5 = 5 / 4 \<and> calculate_fine DVD 5 = 5 \<and> calculate_fine CD 5 = 5 / 2 \<and>
   get_checkout_period CD \<noteq> get_checkout_period Book \<and>
   calculate_fine CD 5 \<noteq> calculate_fine Book 5 \<and>
   kind (new_Book i t a isb c) = Book \<and>
   checkout_period (new_Book i t a isb c) = 21 \<and>
   calculate_fine (kind (new_Book i t a isb c)) 5 = 5 / 4 \<and>
   kind (new_DVD i t dir c rt) = DVD \<and>
   checkout_period (new_DVD i t dir c rt) = 7 \<and>
   calculate_fine (kind (new_DVD i t dir c rt)) 5 = 5 \<and>
   kind (new_CD i t ar c tr) = CD \<and>
   isinstance_Book (kind (new_CD i t ar c tr)) \<and>
   checkout_period (new_CD i t ar c tr) = 14 \<and>
   calculate_fine (kind (new_CD i t ar c tr)) 5 = 5 / 2 \<and>
   due_date (snd (checkout (new_CD i t ar c tr) pid t1 t2)) = Some (t1 + 14 * 86400000000) \<and>
   fst (checkin ((new_CD i t ar c tr)\<lparr>due_date := Some t1\<rparr>) cond
          (t1 + 1) (t1 + 5 * 86400000000)) = 5 / 2"
  by (simp add: Book_get_checkout_period_def DVD_get_checkout_period_def
      CD_get_checkout_period_def Book_calculate_fine_def DVD_calculate_fine_def
      CD_calculate_fine_def kind_def checkout_period_def new_Book_def new_DVD_def
      new_CD_def LibraryItem_init_def checkout_def checkin_def timedelta_days_def
      days_def Let_def)

theorem kind_policy_table_witness:
  "\<bar>5 :: int\<bar> \<le> 2 ^ 53 \<and>
   calculate_fine Book 5 = of_int 5 * (1 / 4) \<and>
   calculate_fine DVD 5 = of_int 5 * 1 \<and>
   calculate_fine CD 5 = of_int 5 * (1 / 2) \<and>
   checkout_period (new_CD 3 ''Random Access Memories'' ''Daft Punk'' ''Electronic'' 13) = 14 \<and>
   calculate_fine (kind (new_CD 3 ''Random Access Memories'' ''Daft Punk'' ''Electronic'' 13)) 5
     = 5 / 2 \<and>
   due_date (snd (checkout
     (new_CD 3 ''Random Access Memories'' ''Daft Punk'' ''Electronic'' 13) 1 1000 1002))
     = Some 1209600001000"
  using kind_policy_table
    [of 5 3 "''Random Access Memories''" "''Daft Punk''" "[]" "''Electronic''" "[]" 0
        "''Daft Punk''" 13 1 1000 1002 "[]"]
  by simp

section \<open>Checking an item out and in\<close>

text \<open>
  C1: \<^verbatim>\<open>checkout\<close> returns true exactly when the status of the item is Available. Then
  the status becomes CheckedOut, the holder is the patron, the checkout count grows by one,
  the due date is the clock reading plus the checkout period of the kind, and one entry is
  appended to the history; the other fields stay. Otherwise it returns false. The
  operation has no failing branch.
\<close>

theorem checkout_succeeds_iff_available:
  "fst (checkout it pid t1 t2) = (status it = AVAILABLE) \<and>
   (status it = AVAILABLE \<longrightarrow>
      status (snd (checkout it pid t1 t2)) = CHECKED_OUT \<and>
      current_patron (snd (checkout it pid t1 t2)) = Some pid \<and>
      checkout_count (snd (checkout it pid t1 t2)) = checkout_count it + 1 \<and>
      due_date (snd (checkout it pid t1 t2)) =
        Some (t1 + timedelta_days (get_checkout_period (kind it))) \<and>
      checkout_history (snd (checkout it pid t1 t2)) =
        checkout_history it @
          [\<lparr>h_patron_id = pid, h_checkout_date = t2,
            h_due_date = t1 + timedelta_days (get_checkout_period (kind it))\<rparr>] \<and>
      reservation_queue (snd (checkout it pid t1 t2)) = reservation_queue it \<and>
      item_id (snd (checkout it pid t1 t2)) = item_id it \<and>
      details (snd (checkout it pid t1 t2)) = details it) \<and>
   (status it \<noteq> AVAILABLE \<longrightarrow> \<not> fst (checkout it pid t1 t2))"
  by (simp add: checkout_def checkout_period_def kind_def Let_def)

theorem checkout_succeeds_iff_available_witness:
  "status (new_DVD 2 ''The Social Network'' ''David Fincher'' ''Biography'' 120) = AVAILABLE \<and>
   fst (checkout (new_DVD 2 ''The Social Network'' ''David Fincher'' ''Biography'' 120) 1 1000 1002) \<and>
   due_date (snd (checkout (new_DVD 2 ''The Social Network'' ''David Fincher'' ''Biography'' 120)
      1 1000 1002)) = Some 604800001000 \<and>
   checkout_count (snd (checkout (new_DVD 2 ''The Social Network'' ''David Fincher'' ''Biography'' 120)
      1 1000 1002)) = 1"
  using checkout_succeeds_iff_available
    [of "new_DVD 2 ''The Social Network'' ''David Fincher'' ''Biography'' 120" 1 1000 1002]
  by (simp add: new_DVD_def LibraryItem_init_def kind_def timedelta_days_def
      DVD_get_checkout_period_def)

text \<open>
  C10: on an item whose status is not Available, \<^verbatim>\<open>checkout\<close> returns false and the item
  is the same in every field.
\<close>

theorem checkout_unavailable_unchanged:
  "status it \<noteq> AVAILABLE \<Longrightarrow> checkout it pid t1 t2 = (False, it)"
  by (simp add: checkout_def)

theorem checkout_unavailable_unchanged_witness:
  "status ((new_Book 1 ''X'' ''A'' ''I'' ''General'')\<lparr>status := DAMAGED\<rparr>) \<noteq> AVAILABLE \<and>
   checkout ((new_Book 1 ''X'' ''A'' ''I'' ''General'')\<lparr>status := DAMAGED\<rparr>) 4 50 60 =
     (False, (new_Book 1 ''X'' ''A'' ''I'' ''General'')\<lparr>status := DAMAGED\<rparr>)"
  using checkout_unavailable_unchanged
    [of "(new_Book 1 ''X'' ''A'' ''I'' ''General'')\<lparr>status := DAMAGED\<rparr>" 4 50 60]
  by simp

text \<open>
  C2: \<^verbatim>\<open>checkin\<close> has no failing branch and no precondition on the status. The item
  becomes Available, holder and due date are cleared. With a due date \<open>d\<close> that the clock
  has passed, the fine is the number of whole days from \<open>d\<close> to the clock, times the fine
  of the kind for one day; with no due date, or a due date not yet passed, the fine is 0.
\<close>

theorem checkin_total_fine:
  "status (fst (snd (checkin it c t1 t2))) = AVAILABLE \<and>
   current_patron (fst (snd (checkin it c t1 t2))) = None \<and>
   due_date (fst (snd (checkin it c t1 t2))) = None \<and>
   fst (checkin it c t1 t2) =
     (case due_date it of
        None \<Rightarrow> 0
      | Some d \<Rightarrow> if d < t1 then of_int ((t2 - d) div 86400000000) * calculate_fine (kind it) 1
                  else 0)"
  by (cases "kind it")
    (simp_all add: checkin_def Let_def days_def Book_calculate_fine_def DVD_calculate_fine_def
      CD_calculate_fine_def split: list.split option.split)

theorem checkin_total_fine_witness:
  "fst (checkin ((new_Book 1 ''X'' ''A'' ''I'' ''General'')
          \<lparr>status := CHECKED_OUT, current_patron := Some 3, due_date := Some 5000\<rparr>)
        ''Good'' 864000005000 864000005000) = 5 / 2 \<and>
   fst (checkin (new_Book 1 ''X'' ''A'' ''I'' ''General'') ''Good'' 864000005000 864000005000) = 0"
  using checkin_total_fine
    [of "(new_Book 1 ''X'' ''A'' ''I'' ''General'')
          \<lparr>status := CHECKED_OUT, current_patron := Some 3, due_date := Some 5000\<rparr>"
        "''Good''" 864000005000 864000005000]
    checkin_total_fine
    [of "new_Book 1 ''X'' ''A'' ''I'' ''General''" "''Good''" 864000005000 864000005000]
  by (simp add: new_Book_def LibraryItem_init_def kind_def Book_calculate_fine_def)

text \<open>
  C7: when the reservation queue of the item is not empty, \<^verbatim>\<open>checkin\<close> removes its head
  and nothing else, so the queue is shorter by one; the item is Available and has no holder,
  the patron taken from the queue is only named in the printed message.
\<close>

theorem checkin_pops_head:
  "reservation_queue it = p # q \<Longrightarrow>
     reservation_queue (fst (snd (checkin it c t1 t2))) = q \<and>
     Suc (length (reservation_queue (fst (snd (checkin it c t1 t2))))) =
       length (reservation_queue it) \<and>
     status (fst (snd (checkin it c t1 t2))) = AVAILABLE \<and>
     current_patron (fst (snd (checkin it c t1 t2))) = None \<and>
     snd (snd (checkin it c t1 t2)) = Some (item_id it, p)"
  by (simp add: checkin_def Let_def)

theorem checkin_pops_head_witness:
  "reservation_queue ((new_CD 3 ''R'' ''D'' ''Electronic'' 13)
      \<lparr>status := CHECKED_OUT, current_patron := Some 1, reservation_queue := [8, 9]\<rparr>) = 8 # [9] \<and>
   reservation_queue (fst (snd (checkin ((new_CD 3 ''R'' ''D'' ''Electronic'' 13)
      \<lparr>status := CHECKED_OUT, current_patron := Some 1, reservation_queue := [8, 9]\<rparr>)
      ''Good'' 0 0))) = [9] \<and>
   current_patron (fst (snd (checkin ((new_CD 3 ''R'' ''D'' ''Electronic'' 13)
      \<lparr>status := CHECKED_OUT, current_patron := Some 1, reservation_queue := [8, 9]\<rparr>)
      ''Good'' 0 0))) = None"
  using checkin_pops_head
    [of "(new_CD 3 ''R'' ''D'' ''Electronic'' 13)
      \<lparr>status := CHECKED_OUT, current_patron := Some 1, reservation_queue := [8, 9]\<rparr>"
      8 "[9]" "''Good''" 0 0]
  by simp

section \<open>Reservations\<close>

text \<open>
  C8: \<^verbatim>\<open>reserve\<close> appends the patron id to the reservation queue only when the queue does
  not hold it; a second call with the same patron id changes nothing, so two calls on an
  item with an empty queue leave a queue of length 1; the status is never changed.
\<close>

theorem reserve_idempotent:
  "reservation_queue (snd (reserve it p)) =
     (if p \<in> set (reservation_queue it) then reservation_queue it
      else reservation_queue it @ [p]) \<and>
   snd (reserve (snd (reserve it p)) p) = snd (reserve it p) \<and>
   status (snd (reserve it p)) = status it \<and>
   (reservation_queue it = [] \<longrightarrow>
      length (reservation_queue (snd (reserve (snd (reserve it p)) p))) = 1)"
  by (simp add: reserve_def)

theorem reserve_idempotent_witness:
  "reservation_queue (new_Book 1 ''X'' ''A'' ''I'' ''General'') = [] \<and>
   length (reservation_queue
     (snd (reserve (snd (reserve (new_Book 1 ''X'' ''A'' ''I'' ''General'') 6)) 6))) = 1"
  using reserve_idempotent [of "new_Book 1 ''X'' ''A'' ''I'' ''General''" 6]
  by (simp add: new_Book_def LibraryItem_init_def)

section \<open>The checkout desk\<close>

text \<open>
  C4: for a patron whose list of checked-out items has reached the limit of the tier,
  \<^verbatim>\<open>process_checkout\<close> returns false whatever the state of the item is, Available or
  not: the limit of the patron is tested first and the item is never looked at. The store,
  and so the status and every other field of the item, is unchanged, and so is the patron.
\<close>

theorem process_checkout_at_limit:
  "get_max_checkouts p \<le> int (length (checked_out_items p)) \<Longrightarrow>
     process_checkout p r st t1 t2 t3 t4 = (False, p, st)"
  by (simp add: process_checkout_def checkout_item_def)

theorem process_checkout_at_limit_witness:
  "get_max_checkouts
     \<lparr>person_id = 2, name = ''Jane Doe'', email = ''jane@example.com'',
      membership_level = ''Student'', checked_out_items = [1, 2, 3], reserved_items = [],
      fines = 0, borrowing_history = [], notifications = []\<rparr>
     \<le> int (length (checked_out_items
     \<lparr>person_id = 2, name = ''Jane Doe'', email = ''jane@example.com'',
      membership_level = ''Student'', checked_out_items = [1, 2, 3], reserved_items = [],
      fines = 0, borrowing_history = [], notifications = []\<rparr>)) \<and>
   status (new_Book 4 ''X'' ''A'' ''I'' ''General'') = AVAILABLE \<and>
   process_checkout
     \<lparr>person_id = 2, name = ''Jane Doe'', email = ''jane@example.com'',
      membership_level = ''Student'', checked_out_items = [1, 2, 3], reserved_items = [],
      fines = 0, borrowing_history = [], notifications = []\<rparr>
     4 (\<lambda>r. new_Book (int r) ''X'' ''A'' ''I'' ''General'') 10 11 12 13 =
     (False,
      \<lparr>person_id = 2, name = ''Jane Doe'', email = ''jane@example.com'',
       membership_level = ''Student'', checked_out_items = [1, 2, 3], reserved_items = [],
       fines = 0, borrowing_history = [], notifications = []\<rparr>,
      \<lambda>r. new_Book (int r) ''X'' ''A'' ''I'' ''General'')"
  using process_checkout_at_limit
    [of "\<lparr>person_id = 2, name = ''Jane Doe'', email = ''jane@example.com'',
      membership_level = ''Student'', checked_out_items = [1, 2, 3], reserved_items = [],
      fines = 0, borrowing_history = [], notifications = []\<rparr>"
      4 "\<lambda>r. new_Book (int r) ''X'' ''A'' ''I'' ''General''" 10 11 12 13]
  by (simp add: get_max_checkouts_def limits_def new_Book_def LibraryItem_init_def)

text \<open>
  C6: for a patron below the limit of the tier and an item whose status is not Available,
  \<^verbatim>\<open>process_checkout\<close> keeps the mutation of the patron: the reference of the item is
  appended to the checked-out list and an entry to the borrowing history, while the item
  itself is not checked out and the store is unchanged. The call returns true.
\<close>

theorem process_checkout_no_rollback:
  "int (length (checked_out_items p)) < get_max_checkouts p \<Longrightarrow>
   status (st r) \<noteq> AVAILABLE \<Longrightarrow>
     process_checkout p r st t1 t2 t3 t4 =
       (True,
        p\<lparr>checked_out_items := checked_out_items p @ [r],
          borrowing_history := borrowing_history p @
            [\<lparr>b_item_id = item_id (st r), b_title = title (st r), b_checkout_date = t1,
              b_due_date = t2 + timedelta_days (get_checkout_period (kind (st r)))\<rparr>]\<rparr>,
        st)"
  by (simp add: process_checkout_def checkout_item_def checkout_def checkout_period_def)

theorem process_checkout_no_rollback_witness:
  "int (length (checked_out_items
     \<lparr>person_id = 1, name = ''John Smith'', email = ''john@example.com'',
      membership_level = ''Premium'', checked_out_items = [], reserved_items = [],
      fines = 0, borrowing_history = [], notifications = []\<rparr>))
     < get_max_checkouts
     \<lparr>person_id = 1, name = ''John Smith'', email = ''john@example.com'',
      membership_level = ''Premium'', checked_out_items = [], reserved_items = [],
      fines = 0, borrowing_history = [], notifications = []\<rparr> \<and>
   status (((\<lambda>r. new_DVD (int r) ''Y'' ''D'' ''Biography'' 114)) 7\<lparr>status := LOST\<rparr>) \<noteq> AVAILABLE \<and>
   checked_out_items (fst (snd (process_checkout
     \<lparr>person_id = 1, name = ''John Smith'', email = ''john@example.com'',
      membership_level = ''Premium'', checked_out_items = [], reserved_items = [],
      fines = 0, borrowing_history = [], notifications = []\<rparr>
     7 (\<lambda>r. (new_DVD (int r) ''Y'' ''D'' ''Biography'' 114)\<lparr>status := LOST\<rparr>) 10 11 12 13))) = [7] \<and>
   status (snd (snd (process_checkout
     \<lparr>person_id = 1, name = ''John Smith'', email = ''john@example.com'',
      membership_level = ''Premium'', checked_out_items = [], reserved_items = [],
      fines = 0, borrowing_history = [], notifications = []\<rparr>
     7 (\<lambda>r. (new_DVD (int r) ''Y'' ''D'' ''Biography'' 114)\<lparr>status := LOST\<rparr>) 10 11 12 13)) 7) = LOST"
  using process_checkout_no_rollback
    [of "\<lparr>person_id = 1, name = ''John Smith'', email = ''john@example.com'',
      membership_level = ''Premium'', checked_out_items = [], reserved_items = [],
      fines = 0, borrowing_history = [], notifications = []\<rparr>"
      "\<lambda>r. (new_DVD (int r) ''Y'' ''D'' ''Biography'' 114)\<lparr>status := LOST\<rparr>" 7 10 11 12 13]
  by (simp add: get_max_checkouts_def limits_def)

section \<open>Import of a catalog\<close>

text \<open>The operations on a single item keep the invariant of the data model.\<close>

lemma checkout_keeps_invariant:
  "item_invariant it \<Longrightarrow> item_invariant (snd (checkout it pid t1 t2))"
  by (simp add: item_invariant_def checkout_def Let_def)

lemma checkin_keeps_invariant:
  "item_invariant it \<Longrightarrow> item_invariant (fst (snd (checkin it c t1 t2)))"
  by (auto simp: item_invariant_def checkin_def Let_def split: list.split)

lemma reserve_keeps_invariant:
  "item_invariant it \<Longrightarrow> item_invariant (snd (reserve it pid))"
  by (simp add: item_invariant_def reserve_def)

lemma new_item_invariant:
  "item_invariant (LibraryItem_init i t c dt)"
  by (simp add: item_invariant_def LibraryItem_init_def)

text \<open>
  C5: every item of a reachable catalog has a holder exactly when its status is
  CheckedOut, a due date exactly when it has a holder, and no patron id twice in its
  reservation queue. The import does not keep this: \<^verbatim>\<open>save_to_file\<close> writes status,
  holder and due date of an item, and \<^verbatim>\<open>load_from_file\<close> restores the status alone. The
  record below is what is written for a book that is checked out; the item loaded from it
  has the status CheckedOut and no holder.
\<close>

theorem load_from_file_checked_out_without_holder:
  "fst (load_from_file
     (Doc \<lparr>doc_items = Some
        [\<lparr>d_type = Some ''Book'', d_item_id = Some 1, d_title = Some ''X'',
          d_category = Some ''General'', d_author = Some ''A'', d_isbn = Some ''I'',
          d_director = None, d_runtime = None, d_artist = None, d_tracks = None,
          d_status = Some ''Checked Out'', d_checkout_count = Some 1\<rparr>],
        doc_next_ids = None\<rparr>)
     \<lparr>items = [], patrons = [], next_item_id = 1, next_patron_id = 1, next_staff_id = 1\<rparr>) \<and>
   map (\<lambda>(k, it). (k, status it, current_patron it, due_date it, item_invariant it))
     (items (snd (load_from_file
       (Doc \<lparr>doc_items = Some
          [\<lparr>d_type = Some ''Book'', d_item_id = Some 1, d_title = Some ''X'',
            d_category = Some ''General'', d_author = Some ''A'', d_isbn = Some ''I'',
            d_director = None, d_runtime = None, d_artist = None, d_tracks = None,
            d_status = Some ''Checked Out'', d_checkout_count = Some 1\<rparr>],
          doc_next_ids = None\<rparr>)
       \<lparr>items = [], patrons = [], next_item_id = 1, next_patron_id = 1, next_staff_id = 1\<rparr>)))
     = [(1, CHECKED_OUT, None, None, False)]"
  by (simp add: load_from_file_def load_item_def required_fields_def restore_item_state_def
      ItemStatus_of_value_def new_Book_def LibraryItem_init_def item_invariant_def)

text \<open>
  C9: on import, every item record whose kind tag is unknown or missing is skipped. This
  fails for a missing tag: the record below has no key \<^verbatim>\<open>type\<close>, and the import succeeds
  with one item, a book.
\<close>

theorem load_missing_type_counterexample:
  "fst (load_from_file
     (Doc \<lparr>doc_items = Some
        [\<lparr>d_type = None, d_item_id = Some 7, d_title = Some ''X'',
          d_category = None, d_author = None, d_isbn = None,
          d_director = None, d_runtime = None, d_artist = None, d_tracks = None,
          d_status = None, d_checkout_count = None\<rparr>],
        doc_next_ids = None\<rparr>)
     \<lparr>items = [], patrons = [], next_item_id = 1, next_patron_id = 1, next_staff_id = 1\<rparr>) \<and>
   map (\<lambda>(k, it). (k, kind it, title it))
     (items (snd (load_from_file
       (Doc \<lparr>doc_items = Some
          [\<lparr>d_type = None, d_item_id = Some 7, d_title = Some ''X'',
            d_category = None, d_author = None, d_isbn = None,
            d_director = None, d_runtime = None, d_artist = None, d_tracks = None,
            d_status = None, d_checkout_count = None\<rparr>],
          doc_next_ids = None\<rparr>)
       \<lparr>items = [], patrons = [], next_item_id = 1, next_patron_id = 1, next_staff_id = 1\<rparr>)))
     = [(7, Book, ''X'')]"
  by (simp add: load_from_file_def load_item_def required_fields_def restore_item_state_def
      ItemStatus_of_value_def new_Book_def LibraryItem_init_def kind_def)

text \<open>
  C9, amended: on import, every item record whose kind tag is present and is none of
  \<^verbatim>\<open>Book\<close>, \<^verbatim>\<open>DVD\<close>, \<^verbatim>\<open>CD\<close> is skipped: no item is created for it and the loop goes on
  with the next record. A record whose kind tag is missing is not skipped: it is loaded
  as the same record tagged \<^verbatim>\<open>Book\<close> is.
\<close>

theorem load_unknown_type_skipped:
  "(d_type d = Some s \<and> s \<noteq> ''Book'' \<and> s \<noteq> ''DVD'' \<and> s \<noteq> ''CD'' \<longrightarrow>
      load_item d = Inr None \<and> load_items (d # ds) its = load_items ds its) \<and>
   (d_type d = None \<longrightarrow>
      load_item d = load_item (d\<lparr>d_type := Some ''Book''\<rparr>) \<and>
      load_items (d # ds) its = load_items (d\<lparr>d_type := Some ''Book''\<rparr> # ds) its)"
  by (simp add: load_item_def required_fields_def restore_item_state_def Let_def
      split: option.split)

theorem load_unknown_type_skipped_witness:
  "d_type \<lparr>d_type = Some ''Magazine'', d_item_id = Some 7, d_title = Some ''X'',
      d_category = None, d_author = None, d_isbn = None,
      d_director = None, d_runtime = None, d_artist = None, d_tracks = None,
      d_status = None, d_checkout_count = None\<rparr> = Some ''Magazine'' \<and>
   ''Magazine'' \<noteq> ''Book'' \<and> ''Magazine'' \<noteq> ''DVD'' \<and> ''Magazine'' \<noteq> ''CD'' \<and>
   load_items
     [\<lparr>d_type = Some ''Magazine'', d_item_id = Some 7, d_title = Some ''X'',
       d_category = None, d_author = None, d_isbn = None,
       d_director = None, d_runtime = None, d_artist = None, d_tracks = None,
       d_status = None, d_checkout_count = None\<rparr>] [] = (None, [])"
  using load_unknown_type_skipped
    [of "\<lparr>d_type = Some ''Magazine'', d_item_id = Some 7, d_title = Some ''X'',
       d_category = None, d_author = None, d_isbn = None,
       d_director = None, d_runtime = None, d_artist = None, d_tracks = None,
       d_status = None, d_checkout_count = None\<rparr>" "''Magazine''" "[]" "[]"]
  by simp

end
